theory Spec2Isabelle
  imports Main "HOL-Library.Word"
begin

unbundle bit_operations_syntax

section \<open>The TFTP server of server.go\<close>

subsection \<open>Data model\<close>

type_synonym byte = "8 word"

text \<open>A \<^verbatim>\<open>*net.UDPAddr\<close>: host and port.\<close>

type_synonym udp_addr = "string \<times> nat"

text \<open>
  Error values. The named ones are the package's error variables, declared outside
  server.go and used there by name only; \<open>NetError\<close> is an error reported by the
  platform's UDP layer, \<open>DecodeError\<close> one reported by packet validation, and
  \<open>Wrapped e msg\<close> is the error \<open>e\<close> wrapped with the message \<open>msg\<close>.
\<close>

datatype error =
    ErrNoRegisteredHandlers
  | ErrInvalidNetwork
  | ErrInvalidRetransmit
  | ErrAddressNotAvailable
  | NetError string
  | DecodeError string
  | Wrapped error string

text \<open>
  Modelled from the spec: \<^verbatim>\<open>wrapError\<close> is declared outside server.go. "Errors
  surfaced upstream carry a cause chain so that callers can inspect the original
  failure": the result of \<^verbatim>\<open>wrapError(err, msg)\<close> for a non-nil \<open>err\<close> keeps \<open>err\<close> as
  its cause, under the message.
\<close>

definition wrapError :: "error \<Rightarrow> string \<Rightarrow> error" where
  "wrapError err msg = Wrapped err msg"

text \<open>
  Handlers are interface values implemented outside the package; the server only stores
  them, tests them against nil and calls their one method. A handler is an opaque
  identity here, and a nil interface is \<open>None\<close>.
\<close>

datatype ReadHandler = ReadHandlerImpl nat
datatype WriteHandler = WriteHandlerImpl nat

text \<open>
  The struct \<^verbatim>\<open>Server\<close>. The logger is its name; the listener \<^verbatim>\<open>conn\<close> is a UDP
  socket, named by the local port it is bound to (nil is \<open>None\<close>). The field
  \<^verbatim>\<open>close\<close> is spelled \<open>closeFlag\<close>: the method \<^verbatim>\<open>Close\<close> needs the other name.
\<close>

record Server =
  log :: string
  net :: string
  addrStr :: string
  addr :: "udp_addr option"
  conn :: "nat option"
  closeFlag :: bool
  retransmit :: int
  rh :: "ReadHandler option"
  wh :: "WriteHandler option"

subsection \<open>Constants declared outside server.go\<close>

text \<open>
  Modelled from the spec: the constant \<^verbatim>\<open>defaultRetransmit\<close> is declared outside
  server.go. The spec gives "per-packet retransmission budget, default 10", and the
  comment of \<^verbatim>\<open>ServerRetransmit\<close> in server.go reads "Default: 10.".
\<close>

definition defaultRetransmit :: int where
  "defaultRetransmit = 10"

text \<open>
  Modelled from the spec: the constant \<^verbatim>\<open>defaultUDPNet\<close> is declared outside
  server.go. The transport of the spec is UDP, and the comment of \<^verbatim>\<open>ServerNet\<close> in
  server.go reads "Default: udp.".
\<close>

definition defaultUDPNet :: string where
  "defaultUDPNet = ''udp''"

subsection \<open>Server options and NewServer\<close>

text \<open>
  A \<^verbatim>\<open>ServerOpt\<close> is a function on \<^verbatim>\<open>*Server\<close> returning an error: it may update the
  server and it returns nil (\<open>None\<close>) or an error.
\<close>

type_synonym ServerOpt = "Server \<Rightarrow> error option \<times> Server"

definition ServerNet :: "string \<Rightarrow> ServerOpt" where
  "ServerNet n s =
     (if n \<noteq> ''udp'' \<and> n \<noteq> ''udp4'' \<and> n \<noteq> ''udp6'' then (Some ErrInvalidNetwork, s)
      else (None, s\<lparr>net := n\<rparr>))"

definition ServerRetransmit :: "int \<Rightarrow> ServerOpt" where
  "ServerRetransmit i s =
     (if i < 0 then (Some ErrInvalidRetransmit, s)
      else (None, s\<lparr>retransmit := i\<rparr>))"

text \<open>
  The loop over the options of \<^verbatim>\<open>NewServer\<close>: the first option that returns an error
  ends it, and the server is dropped (\<^verbatim>\<open>return nil, err\<close>).
\<close>

fun applyOpts :: "Server \<Rightarrow> ServerOpt list \<Rightarrow> error + Server" where
  "applyOpts s [] = Inr s"
| "applyOpts s (opt # opts) =
     (case opt s of
        (Some err, _) \<Rightarrow> Inl err
      | (None, s') \<Rightarrow> applyOpts s' opts)"

definition NewServer :: "string \<Rightarrow> ServerOpt list \<Rightarrow> error + Server" where
  "NewServer a opts =
     applyOpts
       \<lparr>log = ''server'', net = defaultUDPNet, addrStr = a, addr = None, conn = None,
        closeFlag = False, retransmit = defaultRetransmit, rh = None, wh = None\<rparr>
       opts"

text \<open>The registration methods \<^verbatim>\<open>ReadHandler\<close> and \<^verbatim>\<open>WriteHandler\<close> of the server.\<close>

definition ReadHandler :: "Server \<Rightarrow> ReadHandler option \<Rightarrow> Server" where
  "ReadHandler s h = s\<lparr>rh := h\<rparr>"

definition WriteHandler :: "Server \<Rightarrow> WriteHandler option \<Rightarrow> Server" where
  "WriteHandler s h = s\<lparr>wh := h\<rparr>"

subsection \<open>Close\<close>

text \<open>
  How a call of \<^verbatim>\<open>Close\<close> ends: \<open>ClosedSocket l\<close> when \<^verbatim>\<open>s.conn\<close> is the listener
  socket \<open>l\<close>, on which the platform's \<^verbatim>\<open>Close\<close> is called (the error that the
  platform returns is returned unchanged and is not modelled); \<open>NilPanic\<close> when
  \<^verbatim>\<open>s.conn\<close> is nil, as it is until \<^verbatim>\<open>Serve\<close> stores the listener: the call of
  \<^verbatim>\<open>Close\<close> on a nil \<^verbatim>\<open>*net.UDPConn\<close> panics and no socket is closed.
\<close>

datatype close_outcome = ClosedSocket nat | NilPanic

text \<open>
  \<^verbatim>\<open>Close\<close> sets the flag and then calls \<^verbatim>\<open>s.conn.Close()\<close>. The result is the
  server as the call leaves it (the flag is set before \<^verbatim>\<open>s.conn\<close> is used, also when
  the call panics) and how the call ends.
\<close>

definition Close :: "Server \<Rightarrow> Server \<times> close_outcome" where
  "Close s =
     (s\<lparr>closeFlag := True\<rparr>,
      case conn s of None \<Rightarrow> NilPanic | Some l \<Rightarrow> ClosedSocket l)"

subsection \<open>Serve: the receive loop\<close>

text \<open>
  What the environment does while \<^verbatim>\<open>Serve\<close> runs, in the order in which the loop
  observes it: a datagram arrives from an address and the pending \<^verbatim>\<open>ReadFromUDP\<close>
  returns it; the pending \<^verbatim>\<open>ReadFromUDP\<close> fails with an error; or another goroutine
  calls \<^verbatim>\<open>Close\<close> on the server.
\<close>

datatype net_event =
    Datagram udp_addr "byte list"
  | ReadFails error
  | CloseCalled

text \<open>
  \<^verbatim>\<open>Serve\<close> either returns (an error or nil), or it is still blocked in
  \<^verbatim>\<open>ReadFromUDP\<close> when the events end, or the program ends with the panic of a
  \<^verbatim>\<open>Close\<close> called by another goroutine.
\<close>

datatype serve_result = Returned "error option" | Blocked | Panicked

text \<open>
  Byte slices live in an explicit store: the address of a slice is its index in
  \<open>heap\<close>, and \<^verbatim>\<open>make\<close> appends a new zeroed slice. \<open>spawned\<close> lists the goroutines
  started by \<^verbatim>\<open>go s.dispatchRequest(addr, bufCopy)\<close>, each with the sender's address
  and the address of the slice handed to it. \<open>closes\<close> lists the sockets that
  the \<^verbatim>\<open>Close\<close> calls of other goroutines closed.
\<close>

record serve_state =
  srv :: Server
  heap :: "byte list list"
  spawned :: "(udp_addr \<times> nat) list"
  closes :: "nat list"

text \<open>The builtin \<^verbatim>\<open>copy(dst, src)\<close>: the new contents of \<open>dst\<close>.\<close>

definition copy :: "byte list \<Rightarrow> byte list \<Rightarrow> byte list" where
  "copy dst src =
     (let n = min (length dst) (length src) in take n src @ drop n dst)"

text \<open>
  \<^verbatim>\<open>ReadFromUDP(buf)\<close> on a datagram with payload \<open>p\<close>: the platform stores the first
  \<open>numBytes = min (length p) (length buf)\<close> bytes of the payload at the start of the
  slice and returns \<open>numBytes\<close>; the result is the count and the new contents of
  \<open>buf\<close>.
\<close>

definition ReadFromUDP :: "byte list \<Rightarrow> byte list \<Rightarrow> nat \<times> byte list" where
  "ReadFromUDP buf p =
     (let numBytes = min (length p) (length buf)
      in (numBytes, take numBytes p @ drop numBytes buf))"

text \<open>
  The body of the loop after a successful read of a datagram with payload \<open>p\<close> from
  \<open>a\<close>: the read into the slice at address \<open>buf\<close>, \<^verbatim>\<open>make([]byte, numBytes)\<close> at a
  new address, \<^verbatim>\<open>copy(bufCopy, buf)\<close>, and the \<^verbatim>\<open>go\<close> statement.
\<close>

definition acceptDatagram :: "serve_state \<Rightarrow> nat \<Rightarrow> udp_addr \<Rightarrow> byte list \<Rightarrow> serve_state" where
  "acceptDatagram st buf a p =
     (let (numBytes, b') = ReadFromUDP (heap st ! buf) p;
          h1 = (heap st)[buf := b'];
          bufCopy = length h1;
          h2 = h1 @ [replicate numBytes 0];
          h3 = h2[bufCopy := copy (h2 ! bufCopy) (h2 ! buf)]
      in st\<lparr>heap := h3, spawned := spawned st @ [(a, bufCopy)]\<rparr>)"

fun serve_loop :: "serve_state \<Rightarrow> nat \<Rightarrow> net_event list \<Rightarrow> serve_result \<times> serve_state" where
  "serve_loop st buf [] = (Blocked, st)"
| "serve_loop st buf (CloseCalled # evs) =
     (case Close (srv st) of
        (s', NilPanic) \<Rightarrow> (Panicked, st\<lparr>srv := s'\<rparr>)
      | (s', ClosedSocket l) \<Rightarrow> serve_loop (st\<lparr>srv := s', closes := closes st @ [l]\<rparr>) buf evs)"
| "serve_loop st buf (ReadFails er # evs) =
     (if closeFlag (srv st) then (Returned None, st)
      else (Returned (Some (wrapError er ''reading from conn'')), st))"
| "serve_loop st buf (Datagram a p # evs) = serve_loop (acceptDatagram st buf a p) buf evs"

text \<open>
  \<^verbatim>\<open>Serve\<close> on the listener socket \<open>c\<close>. The shared receive buffer is the first
  slice of the store, at address 0.
\<close>

definition Serve :: "Server \<Rightarrow> nat \<Rightarrow> net_event list \<Rightarrow> serve_result \<times> serve_state" where
  "Serve s c evs =
     (if rh s = None \<and> wh s = None
      then (Returned (Some ErrNoRegisteredHandlers),
            \<lparr>srv = s, heap = [], spawned = [], closes = []\<rparr>)
      else serve_loop
             \<lparr>srv = s\<lparr>conn := Some c\<rparr>, heap = [replicate 1024 0], spawned = [], closes = []\<rparr>
             0 evs)"

text \<open>
  The datagrams that the loop accepts in a run where no \<^verbatim>\<open>Close\<close> panics, as is every
  run of \<^verbatim>\<open>Serve\<close>: those read before the first failing read.
\<close>

definition isReadFails :: "net_event \<Rightarrow> bool" where
  "isReadFails ev = (case ev of ReadFails er \<Rightarrow> True | _ \<Rightarrow> False)"

fun accepted :: "net_event list \<Rightarrow> (udp_addr \<times> byte list) list" where
  "accepted [] = []"
| "accepted (Datagram a p # evs) = (a, p) # accepted evs"
| "accepted (CloseCalled # evs) = accepted evs"
| "accepted (ReadFails err # evs) = []"

text \<open>
  The bytes that the spawned goroutines hold: for each one, the sender's address and
  the contents of the slice handed to it, read from the store.
\<close>

definition handedOff :: "serve_state \<Rightarrow> (udp_addr \<times> byte list) list" where
  "handedOff st = map (\<lambda>(a, ptr). (a, heap st ! ptr)) (spawned st)"

text \<open>
  The store is well formed for the receive buffer at \<open>buf\<close>: the buffer is allocated,
  and the slices handed off are allocated, pairwise distinct and distinct from it.
\<close>

definition wfStore :: "serve_state \<Rightarrow> nat \<Rightarrow> bool" where
  "wfStore st buf \<longleftrightarrow>
     buf < length (heap st) \<and> distinct (map snd (spawned st)) \<and>
     (\<forall>ptr \<in> snd ` set (spawned st). ptr < length (heap st) \<and> ptr \<noteq> buf)"

subsection \<open>dispatchRequest: one request\<close>

text \<open>
  The struct \<^verbatim>\<open>conn\<close> of one transfer, with the fields that server.go reads or
  writes (\<open>connRetransmit\<close> is its field \<^verbatim>\<open>retransmit\<close>, \<open>rx\<close> the bytes of the
  received datagram), the socket \<open>netConn\<close> it owns and the peer \<open>remoteAddr\<close>.
\<close>

record Conn =
  netConn :: nat
  remoteAddr :: udp_addr
  mode :: string
  connRetransmit :: int
  rx :: "byte list"
  err :: "error option"

datatype readRequest = ReadRequest Conn string
datatype writeRequest = WriteRequest Conn string

datatype level = LvlErr | LvlDebug | LvlTrace

text \<open>
  The calls that \<^verbatim>\<open>dispatchRequest\<close> makes into code outside server.go, in order. A
  call that takes the connection is recorded with the connection as
  \<^verbatim>\<open>dispatchRequest\<close> has set it at that moment; what the callee does with it is
  outside this model. \<open>SendError\<close> is \<^verbatim>\<open>conn.sendError(code, msg)\<close>, \<open>ConnClose\<close> the
  \<^verbatim>\<open>conn.Close\<close> that the deferred \<^verbatim>\<open>errorDefer\<close> runs when \<^verbatim>\<open>dispatchRequest\<close>
  returns. Log entries are recorded with their format string.
\<close>

datatype effect =
    NewConnCall string string udp_addr
  | ServerLog level string
  | ConnLog Conn level string
  | SendError Conn "16 word" string
  | ReadSetup Conn bool
  | ServeTFTP ReadHandler readRequest
  | ReceiveTFTP WriteHandler writeRequest
  | ConnClose Conn

text \<open>
  The functions of the package that \<^verbatim>\<open>dispatchRequest\<close> calls and that are declared
  outside server.go are parameters: \<^verbatim>\<open>newConn\<close>, the datagram methods
  \<^verbatim>\<open>validate\<close>, \<^verbatim>\<open>opcode\<close>, \<^verbatim>\<open>mode\<close> and \<^verbatim>\<open>filename\<close> (functions of the bytes
  set by \<^verbatim>\<open>setBytes\<close>), and the error returned by \<^verbatim>\<open>conn.readSetup\<close>.
\<close>

record env =
  newConn :: "string \<Rightarrow> string \<Rightarrow> udp_addr \<Rightarrow> error + Conn"
  rx_validate :: "byte list \<Rightarrow> error option"
  rx_opcode :: "byte list \<Rightarrow> 16 word"
  rx_mode :: "byte list \<Rightarrow> string"
  rx_filename :: "byte list \<Rightarrow> string"
  readSetup :: "Conn \<Rightarrow> bool \<Rightarrow> error option"

text \<open>
  Modelled from the spec: the constant \<^verbatim>\<open>opCodeRRQ\<close> is declared outside server.go.
  The spec gives "Opcodes: RRQ=1".
\<close>

definition opCodeRRQ :: "16 word" where
  "opCodeRRQ = 1"

text \<open>
  Modelled from the spec: the constant \<^verbatim>\<open>opCodeWRQ\<close> is declared outside server.go.
  The spec gives "Opcodes: RRQ=1, WRQ=2".
\<close>

definition opCodeWRQ :: "16 word" where
  "opCodeWRQ = 2"

text \<open>
  Modelled from the spec: the constant \<^verbatim>\<open>ErrCodeIllegalOperation\<close> is declared outside
  server.go. The spec gives "Error codes (wire): 4 illegal operation".
\<close>

definition ErrCodeIllegalOperation :: "16 word" where
  "ErrCodeIllegalOperation = 4"

definition dispatchRequest :: "env \<Rightarrow> Server \<Rightarrow> udp_addr \<Rightarrow> byte list \<Rightarrow> effect list" where
  "dispatchRequest e s a b =
     NewConnCall (net s) [] a #
     (case newConn e (net s) [] a of
        Inl er \<Rightarrow> [ServerLog LvlErr ''Received error opening connection for new request: %v'']
      | Inr c0 \<Rightarrow>
          (let c1 = c0\<lparr>connRetransmit := retransmit s\<rparr>;
               c2 = c1\<lparr>rx := b\<rparr>
           in case rx_validate e (rx c2) of
                Some er \<Rightarrow> [ServerLog LvlDebug ''Error decoding new request: %v'', ConnClose c2]
              | None \<Rightarrow>
                  ServerLog LvlDebug ''New request from %v: %s'' #
                  (let c3 = c2\<lparr>mode := rx_mode e (rx c2)\<rparr>
                   in if rx_opcode e (rx c3) = opCodeRRQ then
                        (case rh s of
                           None \<Rightarrow>
                             [ServerLog LvlDebug ''No read handler registered.'',
                              SendError c3 ErrCodeIllegalOperation
                                ''Server does not support read requests.'',
                              ConnClose c3]
                         | Some h \<Rightarrow>
                             [ServeTFTP h (ReadRequest c3 (rx_filename e (rx c3))),
                              ConnClose c3])
                      else if rx_opcode e (rx c3) = opCodeWRQ then
                        (case wh s of
                           None \<Rightarrow>
                             [ServerLog LvlDebug ''No write handler registered.'',
                              SendError c3 ErrCodeIllegalOperation
                                ''Server does not support write requests.'',
                              ConnClose c3]
                         | Some h \<Rightarrow>
                             (let name = rx_filename e (rx c3);
                                  c4 = (case readSetup e c3 True of
                                          Some er \<Rightarrow> c3\<lparr>err := Some er\<rparr>
                                        | None \<Rightarrow> c3)
                              in [ConnLog c3 LvlTrace ''performing write setup'',
                                  ReadSetup c3 True,
                                  ReceiveTFTP h (WriteRequest c4 name),
                                  ConnClose c4]))
                      else [ServerLog LvlDebug ''Unexpected Request'', ConnClose c3])))"

text \<open>What a run of \<^verbatim>\<open>dispatchRequest\<close> sent with \<^verbatim>\<open>sendError\<close>, and the handlers it called.\<close>

fun sentErrors :: "effect list \<Rightarrow> (16 word \<times> string) list" where
  "sentErrors [] = []"
| "sentErrors (SendError c code msg # es) = (code, msg) # sentErrors es"
| "sentErrors (x # es) = sentErrors es"

fun isHandlerCall :: "effect \<Rightarrow> bool" where
  "isHandlerCall (ServeTFTP h r) = True"
| "isHandlerCall (ReceiveTFTP h w) = True"
| "isHandlerCall x = False"

subsection \<open>The parts of the package outside server.go, from the specification\<close>

text \<open>
  The packet codec (the datagram methods \<^verbatim>\<open>validate\<close>, \<^verbatim>\<open>opcode\<close>, \<^verbatim>\<open>mode\<close>,
  \<^verbatim>\<open>filename\<close>) and \<^verbatim>\<open>newConn\<close> are declared outside server.go. The spec gives the
  wire format, in network byte order, with the opcodes 1 to 6:
  \<^verbatim>\<open>RRQ/WRQ : op(2) | filename(NUL-term) | mode(NUL-term) | (key(NUL) value(NUL))*\<close>,
  \<^verbatim>\<open>DATA : op(2) | block(2) | payload\<close>, \<^verbatim>\<open>ACK : op(2) | block(2)\<close>,
  \<^verbatim>\<open>ERROR : op(2) | errcode(2) | message(NUL-term)\<close>,
  \<^verbatim>\<open>OACK : op(2) | (key(NUL) value(NUL))*\<close>.
\<close>

text \<open>
  Modelled from the spec: \<^verbatim>\<open>opcode\<close> is declared outside server.go. The opcode is
  the field \<^verbatim>\<open>op(2)\<close>, the first two bytes in network byte order.
\<close>

definition wire_opcode :: "byte list \<Rightarrow> 16 word" where
  "wire_opcode b =
     (case b of
        hi # lo # _ \<Rightarrow> push_bit 8 (ucast hi) OR ucast lo
      | _ \<Rightarrow> 0)"

text \<open>
  Modelled from the spec: the reading of string fields is declared outside server.go.
  "All strings are NUL-terminated in the wire format": the NUL-terminated strings of a
  byte sequence, in order, and \<open>None\<close> when the last string has no terminating NUL.
  \<open>cur\<close> is the string being read.
\<close>

fun cstrings :: "byte list \<Rightarrow> byte list \<Rightarrow> byte list list option" where
  "cstrings cur [] = (if cur = [] then Some [] else None)"
| "cstrings cur (x # xs) =
     (if x = 0 then map_option ((#) cur) (cstrings [] xs)
      else cstrings (cur @ [x]) xs)"

text \<open>
  Modelled from the spec: the check of options is declared outside server.go. "Option
  keys and values are non-empty and appear in key/value pairs."
\<close>

fun optionsOk :: "byte list list \<Rightarrow> bool" where
  "optionsOk [] = True"
| "optionsOk [k] = False"
| "optionsOk (k # v # kvs) = (k \<noteq> [] \<and> v \<noteq> [] \<and> optionsOk kvs)"

text \<open>
  Modelled from the spec: the case folding of the mode is declared outside server.go.
  "\<open>mode\<close> is case-insensitive on decode, lowercase on encode": an ASCII capital letter
  becomes the small letter.
\<close>

definition toLower :: "byte \<Rightarrow> byte" where
  "toLower x = (if 0x41 \<le> x \<and> x \<le> 0x5A then x + 0x20 else x)"

text \<open>The bytes of a string, and the string of a byte sequence.\<close>

definition bytesOf :: "string \<Rightarrow> byte list" where
  "bytesOf str = map of_char str"

definition stringOf :: "byte list \<Rightarrow> string" where
  "stringOf bs = map (\<lambda>x. char_of (unat x)) bs"

text \<open>
  Modelled from the spec: the check of the mode is declared outside server.go. "mode
  in netascii, octet, case-insensitive."
\<close>

definition modeOk :: "byte list \<Rightarrow> bool" where
  "modeOk m = (map toLower m = bytesOf ''netascii'' \<or> map toLower m = bytesOf ''octet'')"

text \<open>
  Modelled from the spec: \<^verbatim>\<open>validate\<close> is declared outside server.go. "Decoding
  validates: minimum length per opcode; presence of terminating NULs for all string
  fields; mode in netascii, octet, case-insensitive; option keys and values are
  non-empty and appear in key/value pairs. Any violation yields a decode error". The
  minimum lengths are those of the fixed fields of the wire format.
\<close>

definition wire_validate :: "byte list \<Rightarrow> error option" where
  "wire_validate b =
     (let op = wire_opcode b; malformed = Some (DecodeError ''malformed packet'')
      in if length b < 2 then malformed
         else if op = 1 \<or> op = 2 then
           (case cstrings [] (drop 2 b) of
              Some (f # m # opts) \<Rightarrow> if modeOk m \<and> optionsOk opts then None else malformed
            | _ \<Rightarrow> malformed)
         else if op = 3 \<or> op = 4 then (if length b < 4 then malformed else None)
         else if op = 5 then
           (if length b < 5 then malformed
            else case cstrings [] (drop 4 b) of Some [msg] \<Rightarrow> None | _ \<Rightarrow> malformed)
         else if op = 6 then
           (case cstrings [] (drop 2 b) of
              Some opts \<Rightarrow> if optionsOk opts then None else malformed
            | None \<Rightarrow> malformed)
         else malformed)"

text \<open>
  Modelled from the spec: \<^verbatim>\<open>filename\<close> is declared outside server.go. The file name of
  a request is its first string field.
\<close>

definition wire_filename :: "byte list \<Rightarrow> string" where
  "wire_filename b =
     (case cstrings [] (drop 2 b) of Some (f # _) \<Rightarrow> stringOf f | _ \<Rightarrow> [])"

text \<open>
  Modelled from the spec: \<^verbatim>\<open>mode\<close> is declared outside server.go. The mode of a
  request is its second string field, in lower case.
\<close>

definition wire_mode :: "byte list \<Rightarrow> string" where
  "wire_mode b =
     (case cstrings [] (drop 2 b) of
        Some (f # m # _) \<Rightarrow> stringOf (map toLower m)
      | _ \<Rightarrow> [])"

text \<open>
  The platform's UDP ports: those that are bound, and the ephemeral ports in the order
  in which the platform hands them out. A UDP socket is named by the local port it is
  bound to.
\<close>

record platform =
  bound :: "nat list"
  ephemeral :: "nat list"

text \<open>
  Modelled from the spec: the allocation of the socket in \<^verbatim>\<open>newConn\<close> is declared
  outside server.go. "Allocate a new ephemeral UDP socket bound to an OS-assigned port":
  the platform assigns the first ephemeral port that is not bound, and fails when there
  is none.
\<close>

definition assignPort :: "platform \<Rightarrow> error + nat" where
  "assignPort pf =
     (case find (\<lambda>p. p \<notin> set (bound pf)) (ephemeral pf) of
        None \<Rightarrow> Inl (NetError ''listen udp: no free port'')
      | Some p \<Rightarrow> Inr p)"

text \<open>
  Modelled from the spec: \<^verbatim>\<open>newConn\<close> is declared outside server.go. The new socket
  "becomes the transfer's local endpoint", the connection has the peer's address as
  \<open>remote\<close>, the given mode, and the default retransmission budget 10.
\<close>

definition sys_newConn :: "platform \<Rightarrow> string \<Rightarrow> string \<Rightarrow> udp_addr \<Rightarrow> error + Conn" where
  "sys_newConn pf n m a =
     (case assignPort pf of
        Inl er \<Rightarrow> Inl er
      | Inr p \<Rightarrow>
          Inr \<lparr>netConn = p, remoteAddr = a, mode = m, connRetransmit = defaultRetransmit,
               rx = [], err = None\<rparr>)"

text \<open>
  Modelled from the spec: the package outside server.go as the specification describes
  it, that is the codec above, \<^verbatim>\<open>newConn\<close> on a platform, and the error of
  \<^verbatim>\<open>readSetup\<close> as given.
\<close>

definition wire_env :: "platform \<Rightarrow> (Conn \<Rightarrow> bool \<Rightarrow> error option) \<Rightarrow> env" where
  "wire_env pf rs =
     \<lparr>newConn = sys_newConn pf, rx_validate = wire_validate, rx_opcode = wire_opcode,
      rx_mode = wire_mode, rx_filename = wire_filename, readSetup = rs\<rparr>"

text \<open>The connection that an effect is about, and the sockets that a run touches.\<close>

fun effectConn :: "effect \<Rightarrow> Conn option" where
  "effectConn (NewConnCall n m a) = None"
| "effectConn (ServerLog l msg) = None"
| "effectConn (ConnLog c l msg) = Some c"
| "effectConn (SendError c code msg) = Some c"
| "effectConn (ReadSetup c b) = Some c"
| "effectConn (ServeTFTP h (ReadRequest c n)) = Some c"
| "effectConn (ReceiveTFTP h (WriteRequest c n)) = Some c"
| "effectConn (ConnClose c) = Some c"

fun connsOf :: "effect list \<Rightarrow> Conn list" where
  "connsOf [] = []"
| "connsOf (x # es) = (case effectConn x of None \<Rightarrow> connsOf es | Some c \<Rightarrow> c # connsOf es)"

text \<open>The run ends with the close of the connection on socket \<open>p\<close>.\<close>

definition closesLast :: "nat \<Rightarrow> effect list \<Rightarrow> bool" where
  "closesLast p es = (case rev es of ConnClose c # _ \<Rightarrow> netConn c = p | _ \<Rightarrow> False)"

subsection \<open>Concrete inputs\<close>

text \<open>
  A platform where port 69 (the listener) is bound and the ephemeral ports are handed
  out from 49152; a platform whose one ephemeral port is bound as well; a
  \<^verbatim>\<open>readSetup\<close> that returns nil; servers listening on socket 69
  with only a write handler, only a read handler, and both; a client address.
\<close>

definition pf0 :: platform where
  "pf0 = \<lparr>bound = [69], ephemeral = [49152, 49153]\<rparr>"

definition pfFull :: platform where
  "pfFull = \<lparr>bound = [69, 49152], ephemeral = [49152]\<rparr>"

definition readSetupOk :: "Conn \<Rightarrow> bool \<Rightarrow> error option" where
  "readSetupOk c b = None"

definition srvNone :: Server where
  "srvNone =
     \<lparr>log = ''server'', net = ''udp'', addrStr = '':69'', addr = Some ([], 69), conn = None,
      closeFlag = False, retransmit = 10, rh = None, wh = None\<rparr>"

definition srvWriteOnly :: Server where
  "srvWriteOnly =
     \<lparr>log = ''server'', net = ''udp'', addrStr = '':69'', addr = Some ([], 69), conn = Some 69,
      closeFlag = False, retransmit = 10, rh = None, wh = Some (WriteHandlerImpl 0)\<rparr>"

definition srvReadOnly :: Server where
  "srvReadOnly =
     \<lparr>log = ''server'', net = ''udp'', addrStr = '':69'', addr = Some ([], 69), conn = Some 69,
      closeFlag = False, retransmit = 10, rh = Some (ReadHandlerImpl 0), wh = None\<rparr>"

definition srvBoth :: Server where
  "srvBoth =
     \<lparr>log = ''server'', net = ''udp'', addrStr = '':69'', addr = Some ([], 69), conn = Some 69,
      closeFlag = False, retransmit = 3, rh = Some (ReadHandlerImpl 0),
      wh = Some (WriteHandlerImpl 0)\<rparr>"

definition client :: udp_addr where
  "client = (''10.0.0.1'', 2000)"

text \<open>
  Datagrams: the read request \<^verbatim>\<open>00 01 "a" 00 "octet" 00\<close>, the write request
  \<^verbatim>\<open>00 02 "a" 00 "octet" 00\<close>, the read request without its last NUL, and the
  acknowledgement \<^verbatim>\<open>00 04 00 01\<close>.
\<close>

definition rrqBytes :: "byte list" where
  "rrqBytes = [0, 1, 0x61, 0, 0x6F, 0x63, 0x74, 0x65, 0x74, 0]"

definition wrqBytes :: "byte list" where
  "wrqBytes = [0, 2, 0x61, 0, 0x6F, 0x63, 0x74, 0x65, 0x74, 0]"

definition truncatedRRQ :: "byte list" where
  "truncatedRRQ = [0, 1, 0x61, 0, 0x6F, 0x63, 0x74, 0x65, 0x74]"

definition ackBytes :: "byte list" where
  "ackBytes = [0, 4, 0, 1]"

section \<open>Properties\<close>

subsection \<open>Options\<close>

lemma applyOpts_append:
  "applyOpts s (pre @ rest) =
     (case applyOpts s pre of Inl e \<Rightarrow> Inl e | Inr s' \<Rightarrow> applyOpts s' rest)"
  by (induction pre arbitrary: s) (auto split: prod.splits option.splits)

lemma applyOpts_all_succeed:
  "\<forall>opt \<in> set opts. \<forall>s'. fst (opt s') = None \<Longrightarrow> \<exists>s'. applyOpts s opts = Inr s'"
proof (induction opts arbitrary: s)
  case Nil
  then show ?case by simp
next
  case (Cons opt opts)
  obtain r s1 where r: "opt s = (r, s1)" by (cases "opt s")
  from Cons.prems have "fst (opt s) = None" by simp
  with r have "r = None" by simp
  moreover from Cons have "\<exists>s'. applyOpts s1 opts = Inr s'" by simp
  ultimately show ?case using r by simp
qed

text \<open>
  C10. \<^verbatim>\<open>NewServer\<close> returns no server and the error of the first option that fails:
  when the options \<open>pre\<close> succeed and leave the server \<open>s1\<close>, and the next option fails
  on \<open>s1\<close> with \<open>er\<close>, the result is \<open>er\<close> whatever options follow; when the next option
  succeeds, \<^verbatim>\<open>NewServer\<close> returns the server it leaves; and when every option succeeds
  on every server, \<^verbatim>\<open>NewServer\<close> returns a server. \<^verbatim>\<open>ServerNet\<close> fails with
  \<open>ErrInvalidNetwork\<close> on every network other than udp, udp4, udp6 and sets the network
  otherwise; \<^verbatim>\<open>ServerRetransmit\<close> fails with \<open>ErrInvalidRetransmit\<close> on every negative
  limit and sets the limit otherwise.
\<close>

theorem NewServer_options:
  "(NewServer a pre = Inr s1 \<and> fst (opt s1) = Some er \<longrightarrow>
      NewServer a (pre @ opt # rest) = Inl er) \<and>
   (NewServer a pre' = Inr s1' \<and> opt' s1' = (None, s2) \<longrightarrow>
      NewServer a (pre' @ [opt']) = Inr s2) \<and>
   ((\<forall>opt \<in> set opts. \<forall>s'. fst (opt s') = None) \<longrightarrow> (\<exists>s'. NewServer a opts = Inr s')) \<and>
   (n \<noteq> ''udp'' \<and> n \<noteq> ''udp4'' \<and> n \<noteq> ''udp6'' \<longrightarrow>
      fst (ServerNet n s) = Some ErrInvalidNetwork) \<and>
   (n' = ''udp'' \<or> n' = ''udp4'' \<or> n' = ''udp6'' \<longrightarrow> ServerNet n' s = (None, s\<lparr>net := n'\<rparr>)) \<and>
   (i < 0 \<longrightarrow> fst (ServerRetransmit i s) = Some ErrInvalidRetransmit) \<and>
   (0 \<le> j \<longrightarrow> ServerRetransmit j s = (None, s\<lparr>retransmit := j\<rparr>))"
proof -
  have 1: "NewServer a pre = Inr s1 \<and> fst (opt s1) = Some er \<longrightarrow>
      NewServer a (pre @ opt # rest) = Inl er"
    by (cases "opt s1") (auto simp: NewServer_def applyOpts_append)
  have 2: "NewServer a pre' = Inr s1' \<and> opt' s1' = (None, s2) \<longrightarrow>
      NewServer a (pre' @ [opt']) = Inr s2"
    by (auto simp: NewServer_def applyOpts_append)
  have 3: "(\<forall>opt \<in> set opts. \<forall>s'. fst (opt s') = None) \<longrightarrow> (\<exists>s'. NewServer a opts = Inr s')"
    unfolding NewServer_def using applyOpts_all_succeed by blast
  show ?thesis using 1 2 3 by (simp add: ServerNet_def ServerRetransmit_def)
qed

text \<open>
  At the address \<^verbatim>\<open>:69\<close>: after \<^verbatim>\<open>ServerNet("udp4")\<close>, a failing
  \<^verbatim>\<open>ServerRetransmit(-1)\<close> decides the result although \<^verbatim>\<open>ServerNet("tcp")\<close> follows,
  and \<^verbatim>\<open>ServerRetransmit(3)\<close> gives a server with the limit 3.
\<close>

theorem NewServer_options_witness:
  "NewServer '':69'' [ServerNet ''udp4''] =
     Inr \<lparr>log = ''server'', net = ''udp4'', addrStr = '':69'', addr = None, conn = None,
          closeFlag = False, retransmit = 10, rh = None, wh = None\<rparr> \<and>
   NewServer '':69'' [ServerNet ''udp4'', ServerRetransmit (- 1), ServerNet ''tcp''] =
     Inl ErrInvalidRetransmit \<and>
   NewServer '':69'' [ServerNet ''udp4'', ServerRetransmit 3] =
     Inr \<lparr>log = ''server'', net = ''udp4'', addrStr = '':69'', addr = None, conn = None,
          closeFlag = False, retransmit = 3, rh = None, wh = None\<rparr> \<and>
   (\<exists>s'. NewServer '':69'' [ServerNet ''udp6'', ServerRetransmit 0] = Inr s') \<and>
   NewServer '':69'' [ServerNet ''tcp'', ServerRetransmit (- 1)] = Inl ErrInvalidNetwork"
proof -
  let ?s1 = "\<lparr>log = ''server'', net = ''udp4'', addrStr = '':69'', addr = None, conn = None,
          closeFlag = False, retransmit = 10, rh = None, wh = None\<rparr>"
  show ?thesis
    using NewServer_options
            [where a = "'':69''" and pre = "[ServerNet ''udp4'']" and ?s1.0 = ?s1
               and opt = "ServerRetransmit (- 1)" and er = ErrInvalidRetransmit
               and rest = "[ServerNet ''tcp'']" and pre' = "[ServerNet ''udp4'']"
               and s1' = ?s1 and opt' = "ServerRetransmit 3"
               and ?s2.0 = "?s1\<lparr>retransmit := 3\<rparr>"
               and opts = "[ServerNet ''udp6'', ServerRetransmit 0]" and n = "''tcp''"
               and s = ?s1 and n' = "''udp4''" and i = "- 1" and j = 3]
    by (simp add: NewServer_def ServerNet_def ServerRetransmit_def defaultUDPNet_def
          defaultRetransmit_def)
qed

subsection \<open>Serve\<close>

text \<open>
  C9. When neither handler is registered, \<^verbatim>\<open>Serve\<close> returns
  \<open>ErrNoRegisteredHandlers\<close> whatever the events are: nothing is read, no buffer is
  allocated, nothing is spawned and the server is unchanged. When a handler is
  registered, \<^verbatim>\<open>Serve\<close> stores the listener and runs the receive loop on a zeroed
  buffer of 1024 bytes; with no event it is blocked in the first read.
\<close>

theorem Serve_no_handlers:
  "(rh s = None \<and> wh s = None \<longrightarrow>
      Serve s c evs =
        (Returned (Some ErrNoRegisteredHandlers),
         \<lparr>srv = s, heap = [], spawned = [], closes = []\<rparr>)) \<and>
   (rh s' \<noteq> None \<or> wh s' \<noteq> None \<longrightarrow>
      Serve s' c evs =
        serve_loop
          \<lparr>srv = s'\<lparr>conn := Some c\<rparr>, heap = [replicate 1024 0], spawned = [], closes = []\<rparr>
          0 evs \<and>
      Serve s' c [] =
        (Blocked,
         \<lparr>srv = s'\<lparr>conn := Some c\<rparr>, heap = [replicate 1024 0], spawned = [], closes = []\<rparr>))"
  by (auto simp: Serve_def)

text \<open>A server without handlers returns the error although a datagram is waiting.\<close>

theorem Serve_no_handlers_witness:
  "rh srvNone = None \<and> wh srvNone = None \<and>
   Serve srvNone 69 [Datagram client rrqBytes] =
     (Returned (Some ErrNoRegisteredHandlers),
      \<lparr>srv = srvNone, heap = [], spawned = [], closes = []\<rparr>) \<and>
   rh srvReadOnly \<noteq> None \<and>
   Serve srvReadOnly 69 [] =
     (Blocked,
      \<lparr>srv = srvReadOnly\<lparr>conn := Some 69\<rparr>, heap = [replicate 1024 0], spawned = [],
       closes = []\<rparr>)"
proof -
  have h1: "rh srvNone = None \<and> wh srvNone = None" by (simp add: srvNone_def)
  have h2: "rh srvReadOnly \<noteq> None" by (simp add: srvReadOnly_def)
  show ?thesis
    using h1 h2 Serve_no_handlers [of srvNone 69 "[Datagram client rrqBytes]" srvReadOnly]
      Serve_no_handlers [of srvNone 69 "[]" srvReadOnly]
    by simp
qed

lemma acceptDatagram_srv [simp]:
  "srv (acceptDatagram st buf a p) = srv st" "closes (acceptDatagram st buf a p) = closes st"
  by (simp_all add: acceptDatagram_def Let_def split: prod.splits)

lemma Close_listener:
  "conn s = Some l \<Longrightarrow> Close s = (s\<lparr>closeFlag := True\<rparr>, ClosedSocket l)"
  by (simp add: Close_def)

lemma Close_nil:
  "conn s = None \<Longrightarrow> Close s = (s\<lparr>closeFlag := True\<rparr>, NilPanic)"
  by (simp add: Close_def)

lemma serve_loop_read_fails:
  "conn (srv st) = Some l \<Longrightarrow> \<forall>ev \<in> set pre. \<not> isReadFails ev \<Longrightarrow>
   fst (serve_loop st buf (pre @ ReadFails er # rest)) =
     (if closeFlag (srv st) \<or> CloseCalled \<in> set pre then Returned None
      else Returned (Some (wrapError er ''reading from conn'')))"
proof (induction pre arbitrary: st)
  case Nil
  then show ?case by simp
next
  case (Cons ev pre)
  then have IH: "\<And>st. conn (srv st) = Some l \<Longrightarrow>
     fst (serve_loop st buf (pre @ ReadFails er # rest)) =
     (if closeFlag (srv st) \<or> CloseCalled \<in> set pre then Returned None
      else Returned (Some (wrapError er ''reading from conn'')))"
    by simp
  show ?case
  proof (cases ev)
    case (Datagram a p)
    with Cons.prems show ?thesis by (simp add: IH)
  next
    case (ReadFails x)
    with Cons.prems show ?thesis by (simp add: isReadFails_def)
  next
    case CloseCalled
    with Cons.prems show ?thesis by (simp add: IH Close_listener)
  qed
qed

lemma serve_loop_closes:
  "conn (srv st) = Some l \<Longrightarrow>
     set (closes (snd (serve_loop st buf evs))) \<subseteq> set (closes st) \<union> {l} \<and>
     fst (serve_loop st buf evs) \<noteq> Panicked"
proof (induction evs arbitrary: st)
  case Nil
  then show ?case by auto
next
  case (Cons ev evs)
  show ?case
  proof (cases ev)
    case (Datagram a p)
    show ?thesis
      unfolding Datagram using Cons.IH [of "acceptDatagram st buf a p"] Cons.prems by simp
  next
    case (ReadFails x)
    then show ?thesis by auto
  next
    case CloseCalled
    show ?thesis
      unfolding CloseCalled
      using Cons.IH [of "st\<lparr>srv := (srv st)\<lparr>closeFlag := True\<rparr>, closes := closes st @ [l]\<rparr>"]
        Cons.prems
      by (auto simp: Close_listener)
  qed
qed

text \<open>
  C3. On a server that has its listener \<open>l\<close>, \<^verbatim>\<open>Close\<close> sets the close flag and
  calls the platform's close on \<open>l\<close>. While \<^verbatim>\<open>Serve\<close> runs on the socket \<open>c\<close>, the
  listener is \<open>c\<close>: every \<^verbatim>\<open>Close\<close> of another goroutine closes \<open>c\<close> and none
  panics. When the first failing read comes after the events \<open>pre\<close>, \<^verbatim>\<open>Serve\<close>
  returns: nil when the flag was set before or \<^verbatim>\<open>Close\<close> was called during \<open>pre\<close>, and
  otherwise the read error wrapped with "reading from conn".
\<close>

theorem Close_then_Serve_returns_nil:
  "(conn s0 = Some l \<longrightarrow> Close s0 = (s0\<lparr>closeFlag := True\<rparr>, ClosedSocket l)) \<and>
   (rh s \<noteq> None \<or> wh s \<noteq> None \<longrightarrow>
      set (closes (snd (Serve s c evs))) \<subseteq> {c} \<and> fst (Serve s c evs) \<noteq> Panicked) \<and>
   ((rh s \<noteq> None \<or> wh s \<noteq> None) \<and> (\<forall>ev \<in> set pre. \<not> isReadFails ev) \<longrightarrow>
      fst (Serve s c (pre @ ReadFails er # rest)) =
        (if closeFlag s \<or> CloseCalled \<in> set pre then Returned None
         else Returned (Some (wrapError er ''reading from conn''))))"
proof -
  let ?st0 = "\<lparr>srv = s\<lparr>conn := Some c\<rparr>, heap = [replicate 1024 0], spawned = [], closes = []\<rparr>"
  have c0: "conn (srv ?st0) = Some c" by simp
  have 1: "conn s0 = Some l \<longrightarrow> Close s0 = (s0\<lparr>closeFlag := True\<rparr>, ClosedSocket l)"
    by (simp add: Close_listener)
  have 2: "rh s \<noteq> None \<or> wh s \<noteq> None \<longrightarrow>
      set (closes (snd (Serve s c evs))) \<subseteq> {c} \<and> fst (Serve s c evs) \<noteq> Panicked"
    using serve_loop_closes [OF c0, of 0 evs] by (auto simp: Serve_def)
  have 3: "(rh s \<noteq> None \<or> wh s \<noteq> None) \<and> (\<forall>ev \<in> set pre. \<not> isReadFails ev) \<longrightarrow>
      fst (Serve s c (pre @ ReadFails er # rest)) =
        (if closeFlag s \<or> CloseCalled \<in> set pre then Returned None
         else Returned (Some (wrapError er ''reading from conn'')))"
    using serve_loop_read_fails [OF c0, of pre 0 er rest] by (auto simp: Serve_def)
  show ?thesis using 1 2 3 by blast
qed

text \<open>
  \<^verbatim>\<open>Close\<close> on a server listening on socket 69. A datagram, then \<^verbatim>\<open>Close\<close>, then the
  failing read: nil, and socket 69 was closed. A datagram, then a failing read before
  any \<^verbatim>\<open>Close\<close>: the wrapped error.
\<close>

theorem Close_then_Serve_returns_nil_witness:
  "conn srvReadOnly = Some 69 \<and>
   Close srvReadOnly = (srvReadOnly\<lparr>closeFlag := True\<rparr>, ClosedSocket 69) \<and>
   \<not> isReadFails (Datagram client rrqBytes) \<and> \<not> isReadFails CloseCalled \<and>
   rh srvReadOnly \<noteq> None \<and> \<not> closeFlag srvReadOnly \<and>
   Serve srvReadOnly 69
          [Datagram client rrqBytes, CloseCalled,
           ReadFails (NetError ''use of closed network connection'')] =
     (Returned None,
      \<lparr>srv = srvReadOnly\<lparr>closeFlag := True\<rparr>,
       heap = [rrqBytes @ replicate 1014 0, rrqBytes], spawned = [(client, 1)],
       closes = [69]\<rparr>) \<and>
   fst (Serve srvReadOnly 69
          [Datagram client rrqBytes, ReadFails (NetError ''i/o timeout''), CloseCalled]) =
     Returned (Some (Wrapped (NetError ''i/o timeout'') ''reading from conn''))"
proof -
  have h1: "\<forall>ev \<in> set [Datagram client rrqBytes, CloseCalled]. \<not> isReadFails ev"
    by (simp add: isReadFails_def)
  have h2: "\<forall>ev \<in> set [Datagram client rrqBytes]. \<not> isReadFails ev"
    by (simp add: isReadFails_def)
  have h3: "rh srvReadOnly \<noteq> None" "\<not> closeFlag srvReadOnly" "conn srvReadOnly = Some 69"
    by (simp_all add: srvReadOnly_def)
  have run: "Serve srvReadOnly 69
          [Datagram client rrqBytes, CloseCalled,
           ReadFails (NetError ''use of closed network connection'')] =
     (Returned None,
      \<lparr>srv = srvReadOnly\<lparr>closeFlag := True\<rparr>,
       heap = [rrqBytes @ replicate 1014 0, rrqBytes], spawned = [(client, 1)],
       closes = [69]\<rparr>)"
    by code_simp
  show ?thesis
    using h1 h2 h3 run
      Close_then_Serve_returns_nil
        [of srvReadOnly 69 srvReadOnly 69 "[]" "[Datagram client rrqBytes, CloseCalled]"
            "NetError ''use of closed network connection''" "[]"]
      Close_then_Serve_returns_nil
        [of srvReadOnly 69 srvReadOnly 69 "[]" "[Datagram client rrqBytes]"
            "NetError ''i/o timeout''" "[CloseCalled]"]
    by (simp add: wrapError_def)
qed

text \<open>
  On a server that was never started, \<^verbatim>\<open>Close\<close> sets the flag and panics.
\<close>

lemma Close_never_started:
  "Close srvNone = (srvNone\<lparr>closeFlag := True\<rparr>, NilPanic)"
  by (simp add: Close_def srvNone_def)

subsection \<open>The buffer handed to a request\<close>

lemma acceptDatagram_heap:
  assumes "buf < length (heap st)"
  shows "heap (acceptDatagram st buf a p) =
           (heap st)[buf := take (length (heap st ! buf)) p @ drop (length p) (heap st ! buf)] @
           [take (length (heap st ! buf)) p]"
    and "spawned (acceptDatagram st buf a p) = spawned st @ [(a, length (heap st))]"
  using assms
  by (simp_all add: acceptDatagram_def ReadFromUDP_def copy_def Let_def nth_append min_def)

lemma acceptDatagram_wf:
  assumes "wfStore st buf"
  shows "wfStore (acceptDatagram st buf a p) buf"
    and "length (heap (acceptDatagram st buf a p) ! buf) = length (heap st ! buf)"
    and "handedOff (acceptDatagram st buf a p) =
           handedOff st @ [(a, take (length (heap st ! buf)) p)]"
proof -
  from assms have b: "buf < length (heap st)"
    and d: "distinct (map snd (spawned st))"
    and r: "\<And>ptr. ptr \<in> snd ` set (spawned st) \<Longrightarrow> ptr < length (heap st) \<and> ptr \<noteq> buf"
    by (auto simp: wfStore_def)
  note h = acceptDatagram_heap [OF b, of a p]
  from r have fresh: "length (heap st) \<notin> snd ` set (spawned st)" by blast
  show "wfStore (acceptDatagram st buf a p) buf"
    unfolding wfStore_def h using b d r fresh by (auto simp: less_Suc_eq)
  show "length (heap (acceptDatagram st buf a p) ! buf) = length (heap st ! buf)"
    unfolding h using b by (simp add: nth_append)
  have old: "\<And>x. x \<in> set (spawned st) \<Longrightarrow>
      heap (acceptDatagram st buf a p) ! snd x = heap st ! snd x"
  proof -
    fix x assume "x \<in> set (spawned st)"
    then have "snd x < length (heap st) \<and> snd x \<noteq> buf" using r by blast
    then show "heap (acceptDatagram st buf a p) ! snd x = heap st ! snd x"
      unfolding h by (simp add: nth_append)
  qed
  have "map (\<lambda>(a', ptr). (a', heap (acceptDatagram st buf a p) ! ptr)) (spawned st) =
        map (\<lambda>(a', ptr). (a', heap st ! ptr)) (spawned st)"
    using old by (auto simp: case_prod_beta)
  then show "handedOff (acceptDatagram st buf a p) =
           handedOff st @ [(a, take (length (heap st ! buf)) p)]"
    unfolding handedOff_def h(2) by (simp add: h(1) nth_append)
qed

lemma serve_loop_handedOff:
  "wfStore st buf \<Longrightarrow> conn (srv st) = Some l \<Longrightarrow>
     wfStore (snd (serve_loop st buf evs)) buf \<and>
     handedOff (snd (serve_loop st buf evs)) =
       handedOff st @ map (\<lambda>(a, p). (a, take (length (heap st ! buf)) p)) (accepted evs)"
proof (induction evs arbitrary: st)
  case Nil
  then show ?case by simp
next
  case (Cons ev evs)
  show ?case
  proof (cases ev)
    case (Datagram a p)
    show ?thesis
      unfolding Datagram
      using Cons.IH [OF acceptDatagram_wf(1) [OF Cons.prems(1), of a p]]
        acceptDatagram_wf(2,3) [OF Cons.prems(1), of a p] Cons.prems(2)
      by simp
  next
    case (ReadFails x)
    with Cons.prems show ?thesis by simp
  next
    case CloseCalled
    let ?st = "st\<lparr>srv := (srv st)\<lparr>closeFlag := True\<rparr>, closes := closes st @ [l]\<rparr>"
    have w: "wfStore ?st buf"
      using Cons.prems by (simp add: wfStore_def)
    have c: "conn (srv ?st) = Some l" using Cons.prems by simp
    show ?thesis
      unfolding CloseCalled using Cons.IH [OF w c] Cons.prems(2)
      by (simp add: handedOff_def Close_listener)
  qed
qed

lemma accepted_append:
  "accepted (evs1 @ evs2) =
     accepted evs1 @ (if \<exists>ev \<in> set evs1. isReadFails ev then [] else accepted evs2)"
proof (induction evs1)
  case Nil
  then show ?case by simp
next
  case (Cons ev evs1)
  then show ?case by (cases ev) (simp_all add: isReadFails_def)
qed

text \<open>
  A run on two datagrams: the second read overwrites the start of the shared buffer at
  address 0, and the slices at addresses 1 and 2 hold the two datagrams.
\<close>

lemma Serve_store_example:
  "heap (snd (Serve srvReadOnly 69 [Datagram client rrqBytes, Datagram client ackBytes])) =
     [ackBytes @ drop 4 rrqBytes @ replicate 1014 0, rrqBytes, ackBytes] \<and>
   spawned (snd (Serve srvReadOnly 69 [Datagram client rrqBytes, Datagram client ackBytes])) =
     [(client, 1), (client, 2)]"
  by code_simp

text \<open>
  C4. After any run of \<^verbatim>\<open>Serve\<close>, the slice handed to the goroutine of each accepted
  datagram holds the first \<open>n\<close> bytes of its payload \<open>p\<close>, where \<open>n = min (length p) 1024\<close>
  is the count that the read returned (so the slice is \<open>take 1024 p\<close>). The slices
  handed off have pairwise distinct addresses, all different from the address 0 of the
  shared buffer. Whatever events \<open>later\<close> follow \<open>evs\<close>, the slices handed off during
  \<open>evs\<close> hold the same bytes after \<open>later\<close>.
\<close>

theorem Serve_hands_off_copy:
  "rh s \<noteq> None \<or> wh s \<noteq> None \<Longrightarrow>
     handedOff (snd (Serve s c evs)) = map (\<lambda>(a, p). (a, take 1024 p)) (accepted evs) \<and>
     distinct (map snd (spawned (snd (Serve s c evs)))) \<and>
     (\<forall>ptr \<in> snd ` set (spawned (snd (Serve s c evs))).
        ptr \<noteq> 0 \<and> ptr < length (heap (snd (Serve s c evs)))) \<and>
     take (length (handedOff (snd (Serve s c evs)))) (handedOff (snd (Serve s c (evs @ later)))) =
       handedOff (snd (Serve s c evs))"
proof -
  assume reg: "rh s \<noteq> None \<or> wh s \<noteq> None"
  let ?st0 = "\<lparr>srv = s\<lparr>conn := Some c\<rparr>, heap = [replicate 1024 0], spawned = [], closes = []\<rparr>"
  have w: "wfStore ?st0 0" by (simp add: wfStore_def)
  have l: "conn (srv ?st0) = Some c" by simp
  have S: "\<And>es. Serve s c es = serve_loop ?st0 0 es" using reg by (auto simp: Serve_def)
  have H: "\<And>es. handedOff (snd (Serve s c es)) =
      map (\<lambda>(a, p). (a, take 1024 p)) (accepted es)"
    unfolding S using serve_loop_handedOff [OF w l] by (simp add: handedOff_def)
  have W: "wfStore (snd (Serve s c evs)) 0"
    unfolding S using serve_loop_handedOff [OF w l] by simp
  have T: "take (length (handedOff (snd (Serve s c evs))))
             (handedOff (snd (Serve s c (evs @ later)))) =
           handedOff (snd (Serve s c evs))"
    unfolding H accepted_append by simp
  show ?thesis using H [of evs] W T by (auto simp: wfStore_def)
qed

text \<open>
  The read request is handed off; after the acknowledgement is received into the same
  buffer, the first goroutine still holds the read request.
\<close>

theorem Serve_hands_off_copy_witness:
  "rh srvReadOnly \<noteq> None \<and>
   handedOff (snd (Serve srvReadOnly 69 [Datagram client rrqBytes])) = [(client, rrqBytes)] \<and>
   handedOff (snd (Serve srvReadOnly 69 [Datagram client rrqBytes, Datagram client ackBytes])) =
     [(client, rrqBytes), (client, ackBytes)]"
proof -
  have h0: "rh srvReadOnly \<noteq> None" by (simp add: srvReadOnly_def)
  then have h: "rh srvReadOnly \<noteq> None \<or> wh srvReadOnly \<noteq> None" by simp
  show ?thesis
    using h0
      Serve_hands_off_copy [OF h, of 69 "[Datagram client rrqBytes]" "[Datagram client ackBytes]"]
      Serve_hands_off_copy [OF h, of 69 "[Datagram client rrqBytes, Datagram client ackBytes]" "[]"]
    by (simp add: rrqBytes_def ackBytes_def)
qed

subsection \<open>dispatchRequest\<close>

lemma wire_eval_rrq:
  "wire_validate rrqBytes = None \<and> wire_opcode rrqBytes = 1 \<and>
   wire_mode rrqBytes = ''octet'' \<and> wire_filename rrqBytes = ''a''"
  by code_simp

lemma wire_eval_wrq:
  "wire_validate wrqBytes = None \<and> wire_opcode wrqBytes = 2 \<and>
   wire_mode wrqBytes = ''octet'' \<and> wire_filename wrqBytes = ''a''"
  by code_simp

lemma wire_eval_truncated:
  "wire_validate truncatedRRQ = Some (DecodeError ''malformed packet'')"
  by code_simp

lemma wire_eval_ack:
  "wire_validate ackBytes = None \<and> wire_opcode ackBytes = 4 \<and> wire_mode ackBytes = []"
  by code_simp

lemma newConn_pfFull:
  "sys_newConn pfFull n m a = Inl (NetError ''listen udp: no free port'')"
  by (simp add: sys_newConn_def assignPort_def pfFull_def)

lemma newConn_pf0:
  "sys_newConn pf0 n m a =
     Inr \<lparr>netConn = 49152, remoteAddr = a, mode = m, connRetransmit = 10, rx = [], err = None\<rparr>"
  by (simp add: sys_newConn_def assignPort_def pf0_def defaultRetransmit_def)

text \<open>
  C1. When validation of the datagram fails, \<^verbatim>\<open>dispatchRequest\<close> returns after the
  call of \<^verbatim>\<open>newConn\<close>, one log entry and, when the connection was opened, the
  deferred \<^verbatim>\<open>conn.Close\<close>: it calls no handler and no \<^verbatim>\<open>sendError\<close>.
\<close>

theorem dispatchRequest_malformed_dropped:
  "rx_validate e b = Some er \<Longrightarrow>
     dispatchRequest e s a b =
       NewConnCall (net s) [] a #
       (case newConn e (net s) [] a of
          Inl x \<Rightarrow> [ServerLog LvlErr ''Received error opening connection for new request: %v'']
        | Inr c0 \<Rightarrow>
            [ServerLog LvlDebug ''Error decoding new request: %v'',
             ConnClose (c0\<lparr>connRetransmit := retransmit s, rx := b\<rparr>)]) \<and>
     sentErrors (dispatchRequest e s a b) = [] \<and>
     filter isHandlerCall (dispatchRequest e s a b) = []"
  by (simp add: dispatchRequest_def split: sum.splits)

text \<open>
  A read request that lacks the NUL after its mode fails validation; a server with
  both handlers opens the connection, logs and closes it.
\<close>

theorem dispatchRequest_malformed_dropped_witness:
  "rx_validate (wire_env pf0 readSetupOk) truncatedRRQ = Some (DecodeError ''malformed packet'') \<and>
   dispatchRequest (wire_env pf0 readSetupOk) srvBoth client truncatedRRQ =
     [NewConnCall ''udp'' [] client,
      ServerLog LvlDebug ''Error decoding new request: %v'',
      ConnClose \<lparr>netConn = 49152, remoteAddr = client, mode = [], connRetransmit = 3,
                 rx = truncatedRRQ, err = None\<rparr>]"
proof -
  have h: "rx_validate (wire_env pf0 readSetupOk) truncatedRRQ =
      Some (DecodeError ''malformed packet'')"
    by (simp add: wire_env_def wire_eval_truncated)
  show ?thesis
    using h dispatchRequest_malformed_dropped [OF h, of srvBoth client]
    by (simp add: wire_env_def newConn_pf0 srvBoth_def)
qed

text \<open>
  C6. When the datagram is valid and its opcode is neither RRQ nor WRQ,
  \<^verbatim>\<open>dispatchRequest\<close> logs "Unexpected Request" and returns through the deferred
  \<^verbatim>\<open>conn.Close\<close>: it calls no handler and no \<^verbatim>\<open>sendError\<close>.
\<close>

theorem dispatchRequest_other_opcode_dropped:
  "rx_validate e b = None \<Longrightarrow> rx_opcode e b \<noteq> opCodeRRQ \<Longrightarrow> rx_opcode e b \<noteq> opCodeWRQ \<Longrightarrow>
     dispatchRequest e s a b =
       NewConnCall (net s) [] a #
       (case newConn e (net s) [] a of
          Inl x \<Rightarrow> [ServerLog LvlErr ''Received error opening connection for new request: %v'']
        | Inr c0 \<Rightarrow>
            [ServerLog LvlDebug ''New request from %v: %s'',
             ServerLog LvlDebug ''Unexpected Request'',
             ConnClose (c0\<lparr>connRetransmit := retransmit s, rx := b, mode := rx_mode e b\<rparr>)]) \<and>
     sentErrors (dispatchRequest e s a b) = [] \<and>
     filter isHandlerCall (dispatchRequest e s a b) = []"
  by (simp add: dispatchRequest_def Let_def split: sum.splits)

text \<open>An acknowledgement as first datagram, on a server with both handlers.\<close>

theorem dispatchRequest_other_opcode_dropped_witness:
  "rx_validate (wire_env pf0 readSetupOk) ackBytes = None \<and>
   rx_opcode (wire_env pf0 readSetupOk) ackBytes \<noteq> opCodeRRQ \<and>
   rx_opcode (wire_env pf0 readSetupOk) ackBytes \<noteq> opCodeWRQ \<and>
   dispatchRequest (wire_env pf0 readSetupOk) srvBoth client ackBytes =
     [NewConnCall ''udp'' [] client,
      ServerLog LvlDebug ''New request from %v: %s'',
      ServerLog LvlDebug ''Unexpected Request'',
      ConnClose \<lparr>netConn = 49152, remoteAddr = client, mode = [], connRetransmit = 3,
                 rx = ackBytes, err = None\<rparr>]"
proof -
  have h1: "rx_validate (wire_env pf0 readSetupOk) ackBytes = None"
    by (simp add: wire_env_def wire_eval_ack)
  have h2: "rx_opcode (wire_env pf0 readSetupOk) ackBytes \<noteq> opCodeRRQ"
    by (simp add: wire_env_def wire_eval_ack opCodeRRQ_def)
  have h3: "rx_opcode (wire_env pf0 readSetupOk) ackBytes \<noteq> opCodeWRQ"
    by (simp add: wire_env_def wire_eval_ack opCodeWRQ_def)
  show ?thesis
    using h1 h2 h3 dispatchRequest_other_opcode_dropped [OF h1 h2 h3, of srvBoth client]
    by (simp add: wire_env_def newConn_pf0 srvBoth_def wire_eval_ack)
qed

text \<open>
  C2, as the claim states it, fails in two ways. For the read request \<open>rrqBytes\<close> on a
  server without read handler, the one error that \<^verbatim>\<open>dispatchRequest\<close> sends has the
  message of server.go, which ends with a full stop, and not the message of the claim.
  And for the same request on a platform where \<^verbatim>\<open>newConn\<close> returns an error, the run
  is the call of \<^verbatim>\<open>newConn\<close> and one log entry: no error is sent.
\<close>

theorem dispatchRequest_message_counterexample:
  "sentErrors (dispatchRequest (wire_env pf0 readSetupOk) srvWriteOnly client rrqBytes) =
     [(4, ''Server does not support read requests.'')] \<and>
   (4, ''Server does not support read requests'') \<notin>
     set (sentErrors (dispatchRequest (wire_env pf0 readSetupOk) srvWriteOnly client rrqBytes)) \<and>
   rx_validate (wire_env pfFull readSetupOk) rrqBytes = None \<and>
   rx_opcode (wire_env pfFull readSetupOk) rrqBytes = opCodeRRQ \<and>
   rh srvWriteOnly = None \<and>
   dispatchRequest (wire_env pfFull readSetupOk) srvWriteOnly client rrqBytes =
     [NewConnCall ''udp'' [] client,
      ServerLog LvlErr ''Received error opening connection for new request: %v''] \<and>
   sentErrors (dispatchRequest (wire_env pfFull readSetupOk) srvWriteOnly client rrqBytes) = []"
  by (simp add: dispatchRequest_def Let_def wire_env_def newConn_pf0 newConn_pfFull
        srvWriteOnly_def wire_eval_rrq opCodeRRQ_def ErrCodeIllegalOperation_def)

text \<open>
  C2, amended. For a valid RRQ when no read handler is registered and \<^verbatim>\<open>newConn\<close>
  opens the connection, \<^verbatim>\<open>dispatchRequest\<close> calls \<^verbatim>\<open>sendError\<close> on the new connection
  with code 4 and the message "Server does not support read requests." (with the full
  stop), then closes the connection, and calls no handler; for a valid WRQ when no write
  handler is registered the same holds with the message "Server does not support write
  requests.". When \<^verbatim>\<open>newConn\<close> returns an error, the run is the call of \<^verbatim>\<open>newConn\<close>
  and the log of the error: nothing is sent, no handler is called.
\<close>

theorem dispatchRequest_unregistered_handler:
  "(rx_validate e b = None \<and> rx_opcode e b = opCodeRRQ \<and> rh s = None \<and>
    newConn e (net s) [] a = Inr c0 \<longrightarrow>
      dispatchRequest e s a b =
        [NewConnCall (net s) [] a,
         ServerLog LvlDebug ''New request from %v: %s'',
         ServerLog LvlDebug ''No read handler registered.'',
         SendError (c0\<lparr>connRetransmit := retransmit s, rx := b, mode := rx_mode e b\<rparr>) 4
           ''Server does not support read requests.'',
         ConnClose (c0\<lparr>connRetransmit := retransmit s, rx := b, mode := rx_mode e b\<rparr>)]) \<and>
   (rx_validate e b' = None \<and> rx_opcode e b' = opCodeWRQ \<and> wh s' = None \<and>
    newConn e (net s') [] a = Inr c0' \<longrightarrow>
      dispatchRequest e s' a b' =
        [NewConnCall (net s') [] a,
         ServerLog LvlDebug ''New request from %v: %s'',
         ServerLog LvlDebug ''No write handler registered.'',
         SendError (c0'\<lparr>connRetransmit := retransmit s', rx := b', mode := rx_mode e b'\<rparr>) 4
           ''Server does not support write requests.'',
         ConnClose (c0'\<lparr>connRetransmit := retransmit s', rx := b', mode := rx_mode e b'\<rparr>)]) \<and>
   (newConn e' (net s'') [] a = Inl er \<longrightarrow>
      dispatchRequest e' s'' a b'' =
        [NewConnCall (net s'') [] a,
         ServerLog LvlErr ''Received error opening connection for new request: %v''] \<and>
      sentErrors (dispatchRequest e' s'' a b'') = [] \<and>
      filter isHandlerCall (dispatchRequest e' s'' a b'') = [])"
  by (simp add: dispatchRequest_def Let_def opCodeRRQ_def opCodeWRQ_def
        ErrCodeIllegalOperation_def)

text \<open>
  The read request on a server with only a write handler, the write request on a
  server with only a read handler, and the write request where \<^verbatim>\<open>newConn\<close> fails.
\<close>

theorem dispatchRequest_unregistered_handler_witness:
  "dispatchRequest (wire_env pf0 readSetupOk) srvWriteOnly client rrqBytes =
     [NewConnCall ''udp'' [] client,
      ServerLog LvlDebug ''New request from %v: %s'',
      ServerLog LvlDebug ''No read handler registered.'',
      SendError \<lparr>netConn = 49152, remoteAddr = client, mode = ''octet'', connRetransmit = 10,
                 rx = rrqBytes, err = None\<rparr> 4 ''Server does not support read requests.'',
      ConnClose \<lparr>netConn = 49152, remoteAddr = client, mode = ''octet'', connRetransmit = 10,
                 rx = rrqBytes, err = None\<rparr>] \<and>
   dispatchRequest (wire_env pf0 readSetupOk) srvReadOnly client wrqBytes =
     [NewConnCall ''udp'' [] client,
      ServerLog LvlDebug ''New request from %v: %s'',
      ServerLog LvlDebug ''No write handler registered.'',
      SendError \<lparr>netConn = 49152, remoteAddr = client, mode = ''octet'', connRetransmit = 10,
                 rx = wrqBytes, err = None\<rparr> 4 ''Server does not support write requests.'',
      ConnClose \<lparr>netConn = 49152, remoteAddr = client, mode = ''octet'', connRetransmit = 10,
                 rx = wrqBytes, err = None\<rparr>] \<and>
   newConn (wire_env pfFull readSetupOk) (net srvReadOnly) [] client =
     Inl (NetError ''listen udp: no free port'') \<and>
   dispatchRequest (wire_env pfFull readSetupOk) srvReadOnly client wrqBytes =
     [NewConnCall ''udp'' [] client,
      ServerLog LvlErr ''Received error opening connection for new request: %v'']"
proof -
  let ?c0 = "\<lparr>netConn = 49152, remoteAddr = client, mode = [], connRetransmit = 10,
                rx = [], err = None\<rparr>"
  have n: "newConn (wire_env pfFull readSetupOk) (net srvReadOnly) [] client =
     Inl (NetError ''listen udp: no free port'')"
    by (simp add: wire_env_def newConn_pfFull)
  show ?thesis
    using n dispatchRequest_unregistered_handler
            [where e = "wire_env pf0 readSetupOk" and b = rrqBytes and s = srvWriteOnly
               and a = client and ?c0.0 = ?c0 and b' = wrqBytes and s' = srvReadOnly
               and c0' = ?c0 and e' = "wire_env pfFull readSetupOk" and s'' = srvReadOnly
               and er = "NetError ''listen udp: no free port''" and b'' = wrqBytes]
    by (simp add: wire_env_def newConn_pf0 srvWriteOnly_def srvReadOnly_def wire_eval_rrq
          wire_eval_wrq opCodeRRQ_def opCodeWRQ_def)
qed

subsection \<open>The connection of a request\<close>

lemma connsOf_iff: "c \<in> set (connsOf es) \<longleftrightarrow> (\<exists>x \<in> set es. effectConn x = Some c)"
  by (induction es) (auto split: option.splits)

lemma dispatchRequest_conn_fields:
  "x \<in> set (dispatchRequest e s a b) \<Longrightarrow> effectConn x = Some c \<Longrightarrow>
     newConn e (net s) [] a = Inr c0 \<Longrightarrow>
     connRetransmit c = retransmit s \<and> netConn c = netConn c0 \<and> remoteAddr c = remoteAddr c0"
  by (auto simp: dispatchRequest_def Let_def split: sum.splits option.splits if_splits)

lemma dispatchRequest_newConn_fails:
  "newConn e (net s) [] a = Inl er \<Longrightarrow>
     dispatchRequest e s a b =
       [NewConnCall (net s) [] a,
        ServerLog LvlErr ''Received error opening connection for new request: %v'']"
  by (simp add: dispatchRequest_def)

lemma dispatchRequest_closesLast:
  "newConn e (net s) [] a = Inr c0 \<Longrightarrow>
     closesLast (netConn c0) (dispatchRequest e s a b) \<and> connsOf (dispatchRequest e s a b) \<noteq> []"
  by (auto simp: dispatchRequest_def closesLast_def Let_def
        split: sum.splits option.splits if_splits)

lemma assignPort_fresh:
  "assignPort pf = Inr p \<Longrightarrow> p \<in> set (ephemeral pf) \<and> p \<notin> set (bound pf)"
  by (auto simp: assignPort_def find_Some_iff split: option.splits)

lemma sys_newConn_Inr:
  "assignPort pf = Inr p \<Longrightarrow>
     sys_newConn pf n m a =
       Inr \<lparr>netConn = p, remoteAddr = a, mode = m, connRetransmit = defaultRetransmit,
            rx = [], err = None\<rparr>"
  by (simp add: sys_newConn_def)

lemma sys_newConn_Inl:
  "assignPort pf = Inl er \<Longrightarrow> sys_newConn pf n m a = Inl er"
  by (simp add: sys_newConn_def)

text \<open>
  C5, as the claim states it, fails: on a platform whose ephemeral port is bound,
  \<^verbatim>\<open>newConn\<close> returns an error, and the run of \<^verbatim>\<open>dispatchRequest\<close> on a read request
  is the call of \<^verbatim>\<open>newConn\<close> and the log of the error. No connection is opened, none
  is passed on and none is closed.
\<close>

theorem dispatchRequest_no_port_counterexample:
  "assignPort pfFull = Inl (NetError ''listen udp: no free port'') \<and>
   dispatchRequest ((wire_env pfFull readSetupOk)\<lparr>newConn := sys_newConn pfFull\<rparr>) srvBoth client
       rrqBytes =
     [NewConnCall ''udp'' [] client,
      ServerLog LvlErr ''Received error opening connection for new request: %v''] \<and>
   connsOf
     (dispatchRequest ((wire_env pfFull readSetupOk)\<lparr>newConn := sys_newConn pfFull\<rparr>) srvBoth
        client rrqBytes) = [] \<and>
   \<not> closesLast 49152
     (dispatchRequest ((wire_env pfFull readSetupOk)\<lparr>newConn := sys_newConn pfFull\<rparr>) srvBoth
        client rrqBytes)"
proof -
  have a: "assignPort pfFull = Inl (NetError ''listen udp: no free port'')"
    by (simp add: assignPort_def pfFull_def)
  have t: "dispatchRequest ((wire_env pfFull readSetupOk)\<lparr>newConn := sys_newConn pfFull\<rparr>)
       srvBoth client rrqBytes =
     [NewConnCall ''udp'' [] client,
      ServerLog LvlErr ''Received error opening connection for new request: %v'']"
    by (simp add: dispatchRequest_def newConn_pfFull srvBoth_def)
  show ?thesis unfolding t using a by (simp add: closesLast_def)
qed

text \<open>
  C5, amended. With \<^verbatim>\<open>newConn\<close> as the specification describes it, on a platform
  \<open>pf\<close>: for every request, \<^verbatim>\<open>dispatchRequest\<close> first calls \<^verbatim>\<open>newConn\<close> with the
  server's network, the empty mode and the sender's address. When \<^verbatim>\<open>newConn\<close> returns
  no error, the platform having assigned the port \<open>p\<close>, this is an ephemeral port that
  was not bound; every connection that the run passes on (to \<^verbatim>\<open>sendError\<close>,
  \<^verbatim>\<open>readSetup\<close>, a handler or \<^verbatim>\<open>Close\<close>) is on the socket \<open>p\<close> with the sender as peer;
  a bound listener socket of the server is none of them; and the last call of the run
  closes the connection on \<open>p\<close>. When \<^verbatim>\<open>newConn\<close> returns an error, the run only logs
  it.
\<close>

theorem dispatchRequest_own_socket:
  "hd (dispatchRequest (e\<lparr>newConn := sys_newConn pf\<rparr>) s a b) = NewConnCall (net s) [] a \<and>
   (case assignPort pf of
      Inl er \<Rightarrow>
        dispatchRequest (e\<lparr>newConn := sys_newConn pf\<rparr>) s a b =
          [NewConnCall (net s) [] a,
           ServerLog LvlErr ''Received error opening connection for new request: %v'']
    | Inr p \<Rightarrow>
        p \<in> set (ephemeral pf) \<and> p \<notin> set (bound pf) \<and>
        connsOf (dispatchRequest (e\<lparr>newConn := sys_newConn pf\<rparr>) s a b) \<noteq> [] \<and>
        (\<forall>c \<in> set (connsOf (dispatchRequest (e\<lparr>newConn := sys_newConn pf\<rparr>) s a b)).
           netConn c = p \<and> remoteAddr c = a) \<and>
        (\<forall>l. conn s = Some l \<and> l \<in> set (bound pf) \<longrightarrow>
           l \<notin> netConn ` set (connsOf (dispatchRequest (e\<lparr>newConn := sys_newConn pf\<rparr>) s a b))) \<and>
        closesLast p (dispatchRequest (e\<lparr>newConn := sys_newConn pf\<rparr>) s a b))"
proof -
  let ?e = "e\<lparr>newConn := sys_newConn pf\<rparr>"
  have hd: "hd (dispatchRequest ?e s a b) = NewConnCall (net s) [] a"
    by (simp add: dispatchRequest_def)
  show ?thesis
  proof (cases "assignPort pf")
    case (Inl er)
    then have "newConn ?e (net s) [] a = Inl er" by (simp add: sys_newConn_Inl)
    from dispatchRequest_newConn_fails [OF this] hd Inl show ?thesis by simp
  next
    case (Inr p)
    let ?c0 = "\<lparr>netConn = p, remoteAddr = a, mode = [], connRetransmit = defaultRetransmit,
            rx = [], err = None\<rparr>"
    from Inr have n: "newConn ?e (net s) [] a = Inr ?c0" by (simp add: sys_newConn_Inr)
    have f: "p \<in> set (ephemeral pf) \<and> p \<notin> set (bound pf)" using assignPort_fresh [OF Inr] .
    have all: "\<forall>c \<in> set (connsOf (dispatchRequest ?e s a b)). netConn c = p \<and> remoteAddr c = a"
      using dispatchRequest_conn_fields [OF _ _ n] by (auto simp: connsOf_iff)
    have lst: "closesLast p (dispatchRequest ?e s a b) \<and> connsOf (dispatchRequest ?e s a b) \<noteq> []"
      using dispatchRequest_closesLast [OF n] by simp
    have lis: "\<forall>l. conn s = Some l \<and> l \<in> set (bound pf) \<longrightarrow>
           l \<notin> netConn ` set (connsOf (dispatchRequest ?e s a b))"
      using all f by auto
    show ?thesis using hd Inr f all lst lis by simp
  qed
qed

text \<open>
  A read request on a server with both handlers, listening on the bound port 69: the
  connection is on port 49152, it goes to the read handler and is closed last.
\<close>

theorem dispatchRequest_own_socket_witness:
  "assignPort pf0 = Inr 49152 \<and> conn srvBoth = Some 69 \<and> 69 \<in> set (bound pf0) \<and>
   dispatchRequest ((wire_env pf0 readSetupOk)\<lparr>newConn := sys_newConn pf0\<rparr>) srvBoth client
       rrqBytes =
     [NewConnCall ''udp'' [] client,
      ServerLog LvlDebug ''New request from %v: %s'',
      ServeTFTP (ReadHandlerImpl 0)
        (ReadRequest \<lparr>netConn = 49152, remoteAddr = client, mode = ''octet'', connRetransmit = 3,
                      rx = rrqBytes, err = None\<rparr> ''a''),
      ConnClose \<lparr>netConn = 49152, remoteAddr = client, mode = ''octet'', connRetransmit = 3,
                 rx = rrqBytes, err = None\<rparr>] \<and>
   closesLast 49152
     (dispatchRequest ((wire_env pf0 readSetupOk)\<lparr>newConn := sys_newConn pf0\<rparr>) srvBoth client
        rrqBytes)"
proof -
  have h: "assignPort pf0 = Inr 49152" by (simp add: assignPort_def pf0_def)
  have t: "dispatchRequest ((wire_env pf0 readSetupOk)\<lparr>newConn := sys_newConn pf0\<rparr>) srvBoth
       client rrqBytes =
     [NewConnCall ''udp'' [] client,
      ServerLog LvlDebug ''New request from %v: %s'',
      ServeTFTP (ReadHandlerImpl 0)
        (ReadRequest \<lparr>netConn = 49152, remoteAddr = client, mode = ''octet'', connRetransmit = 3,
                      rx = rrqBytes, err = None\<rparr> ''a''),
      ConnClose \<lparr>netConn = 49152, remoteAddr = client, mode = ''octet'', connRetransmit = 3,
                 rx = rrqBytes, err = None\<rparr>]"
    by (simp add: dispatchRequest_def Let_def wire_env_def newConn_pf0 srvBoth_def wire_eval_rrq
          opCodeRRQ_def)
  show ?thesis
    using h t dispatchRequest_own_socket
            [where e = "wire_env pf0 readSetupOk" and pf = pf0 and s = srvBoth and a = client
               and b = rrqBytes]
    by (simp add: srvBoth_def pf0_def)
qed

text \<open>
  C7. A server made by \<^verbatim>\<open>NewServer\<close> without options has the retransmission limit 10.
  \<^verbatim>\<open>ServerRetransmit(i)\<close> fails with \<open>ErrInvalidRetransmit\<close> for every negative \<open>i\<close>, and
  so does \<^verbatim>\<open>NewServer\<close> with it; for every other \<open>j\<close> it sets the server's limit to
  \<open>j\<close>. Every connection that a run of \<^verbatim>\<open>dispatchRequest\<close> passes on carries the
  server's limit, and a run that opens a connection passes it on at least once.
\<close>

theorem retransmit_budget:
  "(\<exists>s0. NewServer a [] = Inr s0 \<and> retransmit s0 = 10) \<and>
   (i < 0 \<longrightarrow> fst (ServerRetransmit i s) = Some ErrInvalidRetransmit \<and>
      NewServer a [ServerRetransmit i] = Inl ErrInvalidRetransmit) \<and>
   (0 \<le> j \<longrightarrow> ServerRetransmit j s = (None, s\<lparr>retransmit := j\<rparr>) \<and>
      (\<exists>s1. NewServer a [ServerRetransmit j] = Inr s1 \<and> retransmit s1 = j)) \<and>
   (\<forall>c \<in> set (connsOf (dispatchRequest e s a' b)). connRetransmit c = retransmit s) \<and>
   (newConn e (net s) [] a' = Inr c0 \<longrightarrow> connsOf (dispatchRequest e s a' b) \<noteq> [])"
proof -
  have 1: "\<exists>s0. NewServer a [] = Inr s0 \<and> retransmit s0 = 10"
    by (simp add: NewServer_def defaultRetransmit_def)
  have 2: "i < 0 \<longrightarrow> fst (ServerRetransmit i s) = Some ErrInvalidRetransmit \<and>
      NewServer a [ServerRetransmit i] = Inl ErrInvalidRetransmit"
    by (simp add: NewServer_def ServerRetransmit_def)
  have 3: "0 \<le> j \<longrightarrow> ServerRetransmit j s = (None, s\<lparr>retransmit := j\<rparr>) \<and>
      (\<exists>s1. NewServer a [ServerRetransmit j] = Inr s1 \<and> retransmit s1 = j)"
    by (simp add: NewServer_def ServerRetransmit_def)
  have 4: "\<forall>c \<in> set (connsOf (dispatchRequest e s a' b)). connRetransmit c = retransmit s"
  proof
    fix c assume "c \<in> set (connsOf (dispatchRequest e s a' b))"
    then obtain x where x: "x \<in> set (dispatchRequest e s a' b)" "effectConn x = Some c"
      by (auto simp: connsOf_iff)
    show "connRetransmit c = retransmit s"
    proof (cases "newConn e (net s) [] a'")
      case (Inl er)
      with x dispatchRequest_newConn_fails [OF Inl, of b] show ?thesis by auto
    next
      case (Inr c1)
      with dispatchRequest_conn_fields [OF x Inr] show ?thesis by simp
    qed
  qed
  have 5: "newConn e (net s) [] a' = Inr c0 \<longrightarrow> connsOf (dispatchRequest e s a' b) \<noteq> []"
    using dispatchRequest_closesLast by blast
  show ?thesis using 1 2 3 4 5 by blast
qed

text \<open>
  The limits -1 and 3; a write request on a server with the limit 3 and both handlers,
  whose connection is new with the default 10 and is passed on four times with 3.
\<close>

theorem retransmit_budget_witness:
  "(- 1 :: int) < 0 \<and> (0 :: int) \<le> 3 \<and>
   NewServer '':69'' [ServerRetransmit (- 1)] = Inl ErrInvalidRetransmit \<and>
   (\<exists>s1. NewServer '':69'' [ServerRetransmit 3] = Inr s1 \<and> retransmit s1 = 3) \<and>
   newConn (wire_env pf0 readSetupOk) (net srvBoth) [] client =
     Inr \<lparr>netConn = 49152, remoteAddr = client, mode = [], connRetransmit = 10, rx = [],
          err = None\<rparr> \<and>
   retransmit srvBoth = 3 \<and>
   map connRetransmit
     (connsOf (dispatchRequest (wire_env pf0 readSetupOk) srvBoth client wrqBytes)) =
     [3, 3, 3, 3]"
proof -
  have n: "newConn (wire_env pf0 readSetupOk) (net srvBoth) [] client =
     Inr \<lparr>netConn = 49152, remoteAddr = client, mode = [], connRetransmit = 10, rx = [],
          err = None\<rparr>"
    by (simp add: wire_env_def newConn_pf0)
  have t: "map connRetransmit
     (connsOf (dispatchRequest (wire_env pf0 readSetupOk) srvBoth client wrqBytes)) =
     [3, 3, 3, 3]"
    by (simp add: dispatchRequest_def Let_def wire_env_def newConn_pf0 srvBoth_def wire_eval_wrq
          opCodeRRQ_def opCodeWRQ_def readSetupOk_def)
  show ?thesis
    using n t retransmit_budget
            [where a = "'':69''" and i = "- 1" and s = srvBoth and j = 3
               and e = "wire_env pf0 readSetupOk" and a' = client and b = wrqBytes
               and ?c0.0 = "\<lparr>netConn = 49152, remoteAddr = client, mode = [],
                             connRetransmit = 10, rx = [], err = None\<rparr>"]
    by (simp add: srvBoth_def)
qed

end
